theory Spec2Isabelle
  imports Complex_Main "HOL-Library.Word" "HOL-Library.Product_Lexorder"
begin

section \<open>The dashboard front end (src/frontend)\<close>

subsection \<open>JavaScript values used by the components\<close>

text \<open>
  A JavaScript string is a sequence of UTF-16 code units; \<open>length\<close>, \<open>substring\<close> and
  \<open>split\<close> count code units. \<open>js_lit\<close> embeds an ASCII literal of the source.
\<close>

type_synonym code_unit = "16 word"
type_synonym js_string = "code_unit list"

definition js_lit :: "string \<Rightarrow> js_string" where
  "js_lit s = map (\<lambda>c. of_nat (of_char c)) s"

text \<open>
  The value of \<open>doc.full_content\<close> handed to \<open>getSnippet\<close>: the JSON field is a string,
  \<open>null\<close>, or absent (\<open>undefined\<close>).
\<close>

datatype js_value = JUndefined | JNull | JString js_string

text \<open>\<open>!text\<close> is true exactly for the falsy values: \<open>undefined\<close>, \<open>null\<close> and \<open>""\<close>.\<close>

fun truthy :: "js_value \<Rightarrow> bool" where
  "truthy JUndefined = False"
| "truthy JNull = False"
| "truthy (JString s) = (s \<noteq> [])"

text \<open>
  \<open>String.prototype.substring(start, end)\<close> for non-negative integer arguments: both are
  clamped to the length and swapped when \<open>start > end\<close>.
\<close>

definition substring :: "js_string \<Rightarrow> nat \<Rightarrow> nat \<Rightarrow> js_string" where
  "substring s start fin =
     (let a = min start (length s); b = min fin (length s)
      in take (max a b - min a b) (drop (min a b) s))"

text \<open>
  \<^verbatim>\<open>
  const getSnippet = (text) => {
    if (!text) return 'No content available.';
    // Take first 300 characters (approx 2-3 lines)
    return text.length > 300 ? text.substring(0, 300) + '...' : text;
  };
  \<close>
\<close>

definition getSnippet :: "js_value \<Rightarrow> js_value" where
  "getSnippet text =
     (if \<not> truthy text then JString (js_lit ''No content available.'')
      else (case text of
              JString s \<Rightarrow>
                if length s > 300 then JString (substring s 0 300 @ js_lit ''...'') else text
            | _ \<Rightarrow> text))"

subsection \<open>Dashboard statistics\<close>

text \<open>
  A topic as the \<open>GET /topics\<close> response carries it: \<open>id\<close>, \<open>name\<close>, \<open>keywords\<close> (one string,
  the keywords joined by \<open>", "\<close>) and \<open>count\<close>. Ids and counts are integers (database keys
  and row counts), held as JavaScript numbers: \<open>topic_count\<close> is the integer value of the
  double that \<open>topic.count\<close> is.
\<close>

record topic_row =
  topic_id :: int
  topic_name :: js_string
  topic_keywords :: js_string
  topic_count :: int

text \<open>What \<open>topicsRes.data\<close> may be: an array of topics, or anything else.\<close>

datatype topics_response = TopicsArray "topic_row list" | NotAnArray

fun isArray :: "topics_response \<Rightarrow> bool" where
  "isArray (TopicsArray ts) = True"
| "isArray NotAnArray = False"

fun elements :: "topics_response \<Rightarrow> topic_row list" where
  "elements (TopicsArray ts) = ts"
| "elements NotAnArray = []"

text \<open>
  A JavaScript number is an IEEE 754 double. The numbers that adding integer counts can
  produce are integers, the two infinities and \<open>NaN\<close>.
\<close>

datatype js_double = Finite int | PlusInfinity | MinusInfinity | NotANumber

text \<open>
  A double has a significand of 53 bits: a magnitude \<open>m\<close> is written \<open>q * 2^e\<close> with
  \<open>q < 2^53\<close>, and \<open>exponent_shift m\<close> is the least such \<open>e\<close>.
\<close>

function exponent_shift :: "int \<Rightarrow> nat" where
  "exponent_shift m = (if m < 2 ^ 53 then 0 else Suc (exponent_shift (m div 2)))"
  by pat_completeness auto
termination
  by (relation "measure nat") auto

text \<open>
  The double of a mathematical integer (IEEE 754 \<open>roundTiesToEven\<close>): the bits below the
  53-bit significand are rounded to the nearest, a tie goes to the even significand, and a
  result that reaches \<open>2^1024\<close> is an infinity.
\<close>

definition round_to_double :: "int \<Rightarrow> js_double" where
  "round_to_double n =
     (let m = \<bar>n\<bar>;
          e = exponent_shift m;
          q = m div 2 ^ e;
          r = m mod 2 ^ e;
          q' = (if 2 ^ e < 2 * r \<or> (2 * r = 2 ^ e \<and> odd q) then q + 1 else q);
          v = q' * 2 ^ e
      in if 2 ^ 1024 \<le> v then (if n < 0 then MinusInfinity else PlusInfinity)
         else Finite (if n < 0 then - v else v))"

text \<open>
  The \<open>+\<close> of two numbers (ECMAScript, \<open>Number::add\<close>): \<open>NaN\<close> if an operand is \<open>NaN\<close> or the
  operands are infinities of opposite sign, an infinite operand otherwise, and for two
  finite operands the exact sum rounded to a double.
\<close>

fun js_add :: "js_double \<Rightarrow> js_double \<Rightarrow> js_double" where
  "js_add (Finite a) (Finite b) = round_to_double (a + b)"
| "js_add NotANumber y = NotANumber"
| "js_add x NotANumber = NotANumber"
| "js_add PlusInfinity MinusInfinity = NotANumber"
| "js_add MinusInfinity PlusInfinity = NotANumber"
| "js_add PlusInfinity y = PlusInfinity"
| "js_add x PlusInfinity = PlusInfinity"
| "js_add MinusInfinity y = MinusInfinity"
| "js_add x MinusInfinity = MinusInfinity"

text \<open>
  The integers of magnitude at most \<open>2^53\<close>: every one of them is a double, and this is the
  largest range around 0 of which that is true.
\<close>

definition exact_range :: "int \<Rightarrow> bool" where
  "exact_range n = (\<bar>n\<bar> \<le> 2 ^ 53)"

text \<open>
  \<^verbatim>\<open>
  const totalDocuments = Array.isArray(topics)
    ? topics.reduce((acc, topic) => acc + topic.count, 0) : 0;
  const uniqueTopics = Array.isArray(topics) ? topics.length : 0;
  \<close>
  \<open>reduce\<close> with an initial value is a left fold, here with the \<open>+\<close> of numbers.
\<close>

definition totalDocuments :: "topics_response \<Rightarrow> js_double" where
  "totalDocuments topics =
     (if isArray topics
      then foldl (\<lambda>acc topic. js_add acc (Finite (topic_count topic))) (Finite 0) (elements topics)
      else Finite 0)"

definition uniqueTopics :: "topics_response \<Rightarrow> nat" where
  "uniqueTopics topics = (if isArray topics then length (elements topics) else 0)"

subsection \<open>TopicExplorer: the current topic and its header\<close>

text \<open>
  The result of \<open>parseInt\<close>: \<open>NaN\<close> or an integer. \<open>===\<close> on numbers is false whenever an
  operand is \<open>NaN\<close>.
\<close>

datatype js_number = NaN | Num int

fun strict_equals :: "js_number \<Rightarrow> js_number \<Rightarrow> bool" where
  "strict_equals (Num a) (Num b) = (a = b)"
| "strict_equals _ _ = False"

text \<open>The white space and line terminators that \<open>parseInt\<close> skips at the start.\<close>

definition is_white_space :: "code_unit \<Rightarrow> bool" where
  "is_white_space c =
     (c \<in> {0x09, 0x0A, 0x0B, 0x0C, 0x0D, 0x20, 0xA0, 0x1680, 0x2028, 0x2029, 0x202F,
            0x205F, 0x3000, 0xFEFF}
      \<or> (0x2000 \<le> c \<and> c \<le> 0x200A))"

text \<open>The value of a digit: \<open>0\<close>-\<open>9\<close>, then \<open>a\<close>-\<open>z\<close> or \<open>A\<close>-\<open>Z\<close> for 10 to 35.\<close>

definition digit_value :: "code_unit \<Rightarrow> nat option" where
  "digit_value c =
     (if 0x30 \<le> c \<and> c \<le> 0x39 then Some (unat c - 0x30)
      else if 0x61 \<le> c \<and> c \<le> 0x7A then Some (unat c - 0x61 + 10)
      else if 0x41 \<le> c \<and> c \<le> 0x5A then Some (unat c - 0x41 + 10)
      else None)"

definition is_digit :: "nat \<Rightarrow> code_unit \<Rightarrow> bool" where
  "is_digit radix c = (case digit_value c of None \<Rightarrow> False | Some v \<Rightarrow> v < radix)"

definition digits_value :: "nat \<Rightarrow> js_string \<Rightarrow> int" where
  "digits_value radix z =
     foldl (\<lambda>acc c. acc * int radix + int (case digit_value c of None \<Rightarrow> 0 | Some v \<Rightarrow> v)) 0 z"

definition trim_start :: "js_string \<Rightarrow> js_string" where
  "trim_start s = dropWhile is_white_space s"

definition strip_sign :: "js_string \<Rightarrow> js_string" where
  "strip_sign s = (case s of [] \<Rightarrow> [] | c # cs \<Rightarrow> if c = 0x2B \<or> c = 0x2D then cs else s)"

text \<open>
  \<open>parseInt(string)\<close> without a radix (ECMAScript, \<open>parseInt\<close>): skip leading white space,
  read a sign, take radix 16 after a \<open>0x\<close> or \<open>0X\<close> prefix and radix 10 otherwise, read the
  longest run of digits, and answer \<open>NaN\<close> when that run is empty. The number is kept as
  the mathematical integer the digits denote, which is what JavaScript answers up to
  \<open>2^53\<close>; beyond that it rounds to a double, which no property below depends on.
\<close>

definition parseInt :: "js_string \<Rightarrow> js_number" where
  "parseInt string =
     (let s = trim_start string;
          sign = (if s \<noteq> [] \<and> hd s = 0x2D then - 1 else 1);
          s1 = strip_sign s;
          hex = (length s1 \<ge> 2 \<and> (take 2 s1 = js_lit ''0x'' \<or> take 2 s1 = js_lit ''0X''));
          radix = (if hex then 16 else 10);
          s2 = (if hex then drop 2 s1 else s1);
          z = takeWhile (is_digit radix) s2
      in if z = [] then NaN else Num (sign * digits_value radix z))"

text \<open>
  \<open>String.prototype.split(separator)\<close> with a string separator: the pieces between the
  occurrences of the separator, read left to right; an empty separator splits into code
  units.
\<close>

function split_from :: "js_string \<Rightarrow> js_string \<Rightarrow> js_string \<Rightarrow> js_string list" where
  "split_from sep cur [] = [cur]"
| "split_from sep cur (c # cs) =
     (if sep \<noteq> [] \<and> take (length sep) (c # cs) = sep
      then cur # split_from sep [] (drop (length sep) (c # cs))
      else split_from sep (cur @ [c]) cs)"
  by pat_completeness auto
termination
  by (relation "measure (\<lambda>(sep, cur, rest). length rest)") auto

definition split :: "js_string \<Rightarrow> js_string \<Rightarrow> js_string list" where
  "split s sep = (if sep = [] then map (\<lambda>c. [c]) s else split_from sep [] s)"

text \<open>
  The state of the component that the header depends on: \<open>topics\<close> (set from the response
  of \<open>getTopics\<close>), \<open>selectedTopic\<close> (the route parameter \<open>topicId || ''\<close>, later the value of
  the select box) and \<open>loading\<close>.
\<close>

record explorer =
  topics :: "topic_row list"
  selectedTopic :: js_string
  loading :: bool

text \<open>
  \<^verbatim>\<open>const currentTopic = topics.find(t => t.id === parseInt(selectedTopic));\<close>
  \<open>find\<close> answers the first element that satisfies the test, or \<open>undefined\<close> (\<open>None\<close>).
\<close>

definition currentTopic :: "explorer \<Rightarrow> topic_row option" where
  "currentTopic st =
     find (\<lambda>t. strict_equals (Num (topic_id t)) (parseInt (selectedTopic st))) (topics st)"

text \<open>Reading a property of \<open>undefined\<close> throws a \<open>TypeError\<close>.\<close>

datatype js_error = TypeError

fun property :: "topic_row option \<Rightarrow> (topic_row \<Rightarrow> 'a) \<Rightarrow> js_error + 'a" where
  "property None f = Inl TypeError"
| "property (Some t) f = Inr (f t)"

text \<open>The header: the heading with the topic's name and one tag per keyword.\<close>

record header =
  heading :: js_string
  tags :: "js_string list"

text \<open>
  \<^verbatim>\<open>
  <Box mb={6}>
    <Heading size="lg">{currentTopic.name}</Heading>
    <HStack spacing={2} mt={2}>
      {currentTopic.keywords.split(', ').map(keyword => (<Tag ...>{keyword}</Tag>))}
    </HStack>
  </Box>
  \<close>
\<close>

definition topic_header :: "topic_row option \<Rightarrow> js_error + header" where
  "topic_header cur =
     (case property cur topic_name of
        Inl e \<Rightarrow> Inl e
      | Inr n \<Rightarrow>
          (case property cur topic_keywords of
             Inl e \<Rightarrow> Inl e
           | Inr k \<Rightarrow> Inr \<lparr>heading = n, tags = split k (js_lit '', '')\<rparr>))"

text \<open>
  \<^verbatim>\<open>
  {selectedTopic && !loading && (
    <Box>
      {currentTopic && ( ...the header... )}
      ...
  \<close>
  The result is the header shown, \<open>None\<close> when no header is rendered, or the error thrown
  while rendering. An object is truthy, \<open>undefined\<close> is not; a string is truthy unless empty.
\<close>

definition render_header :: "explorer \<Rightarrow> js_error + header option" where
  "render_header st =
     (if selectedTopic st \<noteq> [] \<and> \<not> loading st
      then (if currentTopic st \<noteq> None
            then (case topic_header (currentTopic st) of
                    Inl e \<Rightarrow> Inl e
                  | Inr h \<Rightarrow> Inr (Some h))
            else Inr None)
      else Inr None)"

section \<open>The topic engine (the backend, whose code is not among the sources)\<close>

subsection \<open>Data model\<close>

text \<open>
  Modelled from the spec: the backend (\<open>backend/app\<close>: \<open>nlp_pipeline.py\<close>, \<open>models.py\<close>,
  \<open>crud.py\<close>) is not among the sources, which hold only the front end that calls it.
  An embedding is "a fixed-length numeric vector" (section 3).
\<close>

type_synonym vector = "real list"

text \<open>Modelled from the spec: \<open>source_type\<close> (article | video) of a Document (section 3).\<close>

datatype source_type = article | video

text \<open>
  Modelled from the spec: the Document of section 3, whose table definition (\<open>models.py\<close>)
  is missing. \<open>published_at\<close> is \<open>None\<close> for a missing or unparseable timestamp; \<open>embedding\<close>
  and \<open>topic_id\<close> are nullable.
\<close>

record Document =
  doc_id :: nat
  source_type :: source_type
  title :: string
  full_content :: string
  url :: string
  published_at :: "nat option"
  embedding :: "vector option"
  doc_topic_id :: "nat option"

text \<open>
  Modelled from the spec: the Topic of section 3 (table definition missing). The
  \<open>representative_cluster_signature\<close> is the member set (document ids) of the cluster that
  last represented the topic: section 4.5 scores a new cluster against "that Topic's
  previous member set".
\<close>

record Topic =
  t_id :: nat
  t_name :: string
  t_keywords :: "string list"
  created_at :: nat
  document_count :: nat
  representative_cluster_signature :: "nat list"

text \<open>
  Modelled from the spec: the TemporalDataPoint of section 3 (\<open>topic_id\<close>, \<open>time_bucket\<close>,
  \<open>count\<close>), table definition missing.
\<close>

record TemporalDataPoint =
  p_topic_id :: nat
  time_bucket :: nat
  p_count :: nat

text \<open>
  Modelled from the spec: the persisted state behind the DocumentStore, TopicStore and
  TemporalStore of section 6 (the database access layer \<open>crud.py\<close> is missing).
\<close>

record stores =
  document_store :: "Document list"
  topic_store :: "Topic list"
  temporal_store :: "TemporalDataPoint list"

text \<open>Modelled from the spec: the error taxonomy of section 7.\<close>

datatype error =
  EmbeddingError | InsufficientDataError | ClusteringError | RetrainInProgress | PersistenceError

text \<open>Modelled from the spec: the two trigger modes of section 4.7.\<close>

datatype mode = incremental | full

text \<open>
  Modelled from the spec: the numerical components, which are missing and specified by
  contract only, are parameters of a run. \<open>embed\<close> is the Embedder (4.1), \<open>fit_transform\<close>
  the DimensionalityReducer (4.2, failing with \<open>InsufficientDataError\<close>), \<open>cluster\<close> the
  Clusterer (4.3: a cluster label and a noise flag per document, or \<open>ClusteringError\<close>),
  \<open>label\<close> the TopicLabeler (4.4: from the member texts and the corpus texts to a name and
  a ranked keyword list), and \<open>persist_fails\<close> tells whether the external store rejects the
  commit (\<open>PersistenceError\<close>, section 7).
\<close>

record components =
  embed :: "string list \<Rightarrow> error + vector list"
  fit_transform :: "vector list \<Rightarrow> error + vector list"
  cluster :: "vector list \<Rightarrow> error + (int \<times> bool) list"
  label :: "string list \<Rightarrow> string list \<Rightarrow> string \<times> string list"
  persist_fails :: "stores \<Rightarrow> bool"

text \<open>
  Modelled from the spec: the configuration surface of section 6 that the modelled stages
  read: the reconciliation similarity threshold and the time-bucket granularity. How the
  member overlap is "combined with" the keyword overlap is left open by the spec (4.5,
  section 9), so the combination is a parameter too.
\<close>

record config =
  similarity_threshold :: rat
  combine :: "rat \<Rightarrow> rat \<Rightarrow> rat"
  time_bucket_granularity :: nat

subsection \<open>Embedding, reducing and clustering\<close>

text \<open>
  Modelled from the spec: the Embedding stage on one document (4.7, 7; the orchestrator
  in \<open>nlp_pipeline.py\<close> is missing). In incremental mode "only documents without an
  embedding are embedded"; full mode "forces re-embedding of everything". A document
  whose embedding fails is skipped: it is left as it was and takes no part in the batch.
\<close>

definition embed_document :: "components \<Rightarrow> mode \<Rightarrow> Document \<Rightarrow> Document \<times> vector option" where
  "embed_document comps m d =
     (if m = incremental \<and> embedding d \<noteq> None then (d, embedding d)
      else (case embed comps [full_content d] of
              Inr [v] \<Rightarrow> (d\<lparr>embedding := Some v\<rparr>, Some v)
            | _ \<Rightarrow> (d, None)))"

text \<open>Modelled from the spec: the Embedding stage over the corpus, in store order.\<close>

definition embedding_stage ::
  "components \<Rightarrow> mode \<Rightarrow> Document list \<Rightarrow> (Document \<times> vector option) list" where
  "embedding_stage comps m docs = map (embed_document comps m) docs"

text \<open>Modelled from the spec: the batch of embeddings handed to the reducer (4.2).\<close>

definition batch_vectors :: "(Document \<times> vector option) list \<Rightarrow> vector list" where
  "batch_vectors rows = List.map_filter snd rows"

text \<open>
  Modelled from the spec: what a run knows of a document after clustering (4.3): it was
  skipped (not in the batch), labelled noise, or put in the cluster with a run-local label.
\<close>

datatype assignment = Skipped | Noise | Cluster int

text \<open>
  Modelled from the spec: the Clusterer's answers, one per document of the batch, handed
  back to the documents in order. A document of the batch for which the Clusterer gave
  no answer has no cluster.
\<close>

fun distribute ::
  "(Document \<times> vector option) list \<Rightarrow> assignment list \<Rightarrow> (Document \<times> assignment) list" where
  "distribute [] ls = []"
| "distribute ((d, None) # rows) ls = (d, Skipped) # distribute rows ls"
| "distribute ((d, Some v) # rows) [] = (d, Skipped) # distribute rows []"
| "distribute ((d, Some v) # rows) (l # ls) = (d, l) # distribute rows ls"

text \<open>
  Modelled from the spec: the Clustering stage (4.3, 7). On \<open>ClusteringError\<close> "the whole
  batch is treated as noise rather than the retrain aborting".
\<close>

definition clustering_stage ::
  "components \<Rightarrow> (Document \<times> vector option) list \<Rightarrow> vector list \<Rightarrow> (Document \<times> assignment) list" where
  "clustering_stage comps rows reduced =
     (case cluster comps reduced of
        Inl e \<Rightarrow> map (\<lambda>(d, v). (d, case v of None \<Rightarrow> Skipped | Some _ \<Rightarrow> Noise)) rows
      | Inr ls \<Rightarrow> distribute rows (map (\<lambda>(l, noise). if noise then Noise else Cluster l) ls))"

text \<open>
  Modelled from the spec: the stages Embedding, Reducing and Clustering in sequence (4.7).
  \<open>InsufficientDataError\<close> of the reducer aborts the run (section 7).
\<close>

definition clustered ::
  "components \<Rightarrow> mode \<Rightarrow> Document list \<Rightarrow> error + (Document \<times> assignment) list" where
  "clustered comps m docs =
     (let rows = embedding_stage comps m docs
      in case fit_transform comps (batch_vectors rows) of
           Inl e \<Rightarrow> Inl e
         | Inr reduced \<Rightarrow> Inr (clustering_stage comps rows reduced))"

subsection \<open>Labeling\<close>

text \<open>
  Modelled from the spec: a cluster of one run with its labeling (4.4): the run-local
  label, the member documents' ids, the name and the ranked keywords.
\<close>

record labelled_cluster =
  c_label :: int
  c_members :: "nat list"
  c_name :: string
  c_keywords :: "string list"

text \<open>Modelled from the spec: the member documents of the cluster with label \<open>l\<close>.\<close>

definition members_of :: "(Document \<times> assignment) list \<Rightarrow> int \<Rightarrow> Document list" where
  "members_of rows l = map fst (filter (\<lambda>(d, a). a = Cluster l) rows)"

text \<open>Modelled from the spec: the labels of the clusters of the run.\<close>

definition cluster_labels :: "(Document \<times> assignment) list \<Rightarrow> int list" where
  "cluster_labels rows =
     remdups (List.map_filter (\<lambda>(d, a). case a of Cluster l \<Rightarrow> Some l | _ \<Rightarrow> None) rows)"

text \<open>
  Modelled from the spec: the Labeling stage (4.4): the TopicLabeler is given the member
  documents' text of each cluster and the text of the whole corpus.
\<close>

definition labeling_stage :: "components \<Rightarrow> (Document \<times> assignment) list \<Rightarrow> labelled_cluster list" where
  "labeling_stage comps rows =
     map (\<lambda>l. let ms = members_of rows l;
                  nk = label comps (map full_content ms) (map (\<lambda>(d, a). full_content d) rows)
              in \<lparr>c_label = l, c_members = map doc_id ms, c_name = fst nk, c_keywords = snd nk\<rparr>)
         (cluster_labels rows)"

subsection \<open>TopicRegistry: reconciliation\<close>

text \<open>Modelled from the spec: the number of distinct elements two sequences share.\<close>

definition overlap_count :: "'a list \<Rightarrow> 'a list \<Rightarrow> nat" where
  "overlap_count xs ys = length (filter (\<lambda>x. x \<in> set ys) (remdups xs))"

text \<open>
  Modelled from the spec: the "Jaccard-style" overlap of 4.5: shared elements over all
  elements, 0 when both are empty.
\<close>

definition jaccard :: "'a list \<Rightarrow> 'a list \<Rightarrow> rat" where
  "jaccard xs ys =
     (let u = length (remdups (xs @ ys))
      in if u = 0 then 0 else of_nat (overlap_count xs ys) / of_nat u)"

text \<open>
  Modelled from the spec: the similarity score of 4.5 between a new cluster and an existing
  Topic: "overlap of the new cluster's member documents against that Topic's previous
  member set (Jaccard-style) combined with keyword-set overlap".
\<close>

definition similarity :: "config \<Rightarrow> labelled_cluster \<Rightarrow> Topic \<Rightarrow> rat" where
  "similarity cfg c t =
     combine cfg (jaccard (c_members c) (representative_cluster_signature t))
                 (jaccard (c_keywords c) (t_keywords t))"

text \<open>
  Modelled from the spec: a candidate match: score, member-overlap count, existing Topic
  id, cluster label.
\<close>

type_synonym candidate = "rat \<times> nat \<times> nat \<times> int"

text \<open>
  Modelled from the spec: the candidates of 4.5: every pair of a new cluster and an
  existing non-dormant Topic whose score reaches the minimum-similarity threshold. A
  Topic is dormant when its \<open>document_count\<close> is 0 (section 3).
\<close>

definition candidates :: "config \<Rightarrow> labelled_cluster list \<Rightarrow> Topic list \<Rightarrow> candidate list" where
  "candidates cfg clusters existing =
     concat (map (\<lambda>c. map (\<lambda>t. (similarity cfg c t,
                                overlap_count (c_members c) (representative_cluster_signature t),
                                t_id t, c_label c))
                          (filter (\<lambda>t. 0 < document_count t
                                       \<and> similarity_threshold cfg \<le> similarity cfg c t) existing))
                 clusters)"

text \<open>
  Modelled from the spec: the order of 4.5: highest score first, "ties broken by larger
  member-overlap count, then by lower existing Topic id".
\<close>

definition rank :: "candidate \<Rightarrow> rat \<times> int \<times> nat" where
  "rank cand = (case cand of (s, ov, tid, l) \<Rightarrow> (- s, - int ov, tid))"

text \<open>
  Modelled from the spec: the "greedy highest-score-first assignment (each existing Topic
  claimed by at most one new cluster and vice versa)" of 4.5, over the ordered candidates;
  the result pairs cluster labels with Topic ids.
\<close>

fun greedy :: "candidate list \<Rightarrow> (int \<times> nat) list \<Rightarrow> (int \<times> nat) list" where
  "greedy [] acc = acc"
| "greedy ((s, ov, tid, l) # cands) acc =
     (if l \<in> fst ` set acc \<or> tid \<in> snd ` set acc then greedy cands acc
      else greedy cands (acc @ [(l, tid)]))"

text \<open>Modelled from the spec: the matches of a run (4.5).\<close>

definition matches :: "config \<Rightarrow> labelled_cluster list \<Rightarrow> Topic list \<Rightarrow> (int \<times> nat) list" where
  "matches cfg clusters existing = greedy (sort_key rank (candidates cfg clusters existing)) []"

text \<open>
  Modelled from the spec: the id of the next new Topic. Topics are never deleted and
  "Topic ids, once assigned, are never reused" (section 3), so an id above all existing
  ones is new.
\<close>

definition fresh_id :: "Topic list \<Rightarrow> nat" where
  "fresh_id existing = Suc (foldr max (map t_id existing) 0)"

text \<open>
  Modelled from the spec: "Cluster matches an existing Topic above threshold: that Topic's
  keywords/name are refreshed from the new labeling"; an existing Topic with no matching
  cluster is left as it is (4.5).
\<close>

definition refresh :: "(int \<times> nat) list \<Rightarrow> labelled_cluster list \<Rightarrow> Topic \<Rightarrow> Topic" where
  "refresh ms clusters t =
     (case find (\<lambda>(l, tid). tid = t_id t) ms of
        None \<Rightarrow> t
      | Some (l, tid) \<Rightarrow>
          (case find (\<lambda>c. c_label c = l) clusters of
             None \<Rightarrow> t
           | Some c \<Rightarrow> t\<lparr>t_name := c_name c, t_keywords := c_keywords c,
                          representative_cluster_signature := c_members c\<rparr>))"

text \<open>Modelled from the spec: "Cluster has no match above threshold: new Topic created" (4.5).\<close>

definition create :: "nat \<Rightarrow> labelled_cluster \<Rightarrow> nat \<Rightarrow> Topic" where
  "create now c i =
     \<lparr>t_id = i, t_name = c_name c, t_keywords = c_keywords c, created_at = now,
      document_count = length (c_members c), representative_cluster_signature = c_members c\<rparr>"

text \<open>
  Modelled from the spec: reconciliation (4.5): the existing Topics, refreshed where
  matched, followed by the new Topics of the unmatched clusters; and the resolution of
  every cluster label to a durable Topic id. It never fails: "a documented unmatched case
  always resolves to create new".
\<close>

definition reconcile ::
  "config \<Rightarrow> nat \<Rightarrow> Topic list \<Rightarrow> labelled_cluster list \<Rightarrow> Topic list \<times> (int \<times> nat) list" where
  "reconcile cfg now existing clusters =
     (let ms = matches cfg clusters existing;
          unmatched = filter (\<lambda>c. c_label c \<notin> fst ` set ms) clusters;
          ids = [fresh_id existing ..< fresh_id existing + length unmatched]
      in (map (refresh ms clusters) existing @ map (\<lambda>(c, i). create now c i) (zip unmatched ids),
          ms @ zip (map c_label unmatched) ids))"

text \<open>
  Modelled from the spec: members are re-pointed (4.5): a document of a cluster gets the
  Topic id its cluster resolved to; a noise document and a skipped one get \<open>NULL\<close>.
\<close>

definition assign :: "(int \<times> nat) list \<Rightarrow> (Document \<times> assignment) list \<Rightarrow> Document list" where
  "assign resolution rows =
     map (\<lambda>(d, a). d\<lparr>doc_topic_id := (case a of Cluster l \<Rightarrow> map_of resolution l | _ \<Rightarrow> None)\<rparr>)
         rows"

text \<open>
  Modelled from the spec: \<open>document_count\<close> is "derived, not authoritative" (section 3): it
  is recomputed from the documents' assignment, which makes it 0 for a Topic without a
  cluster this round ("document_count recomputed to 0", 4.5).
\<close>

definition recount :: "Document list \<Rightarrow> Topic list \<Rightarrow> Topic list" where
  "recount docs ts =
     map (\<lambda>t. t\<lparr>document_count := length (filter (\<lambda>d. doc_topic_id d = Some (t_id t)) docs)\<rparr>)
         ts"

subsection \<open>TemporalAggregator\<close>

text \<open>
  Modelled from the spec: the time bucket of a document (4.6): its timestamp at the fixed
  granularity; a document with a missing or unparseable timestamp has none.
\<close>

definition bucket_of :: "config \<Rightarrow> Document \<Rightarrow> nat option" where
  "bucket_of cfg d =
     (case published_at d of None \<Rightarrow> None | Some ts \<Rightarrow> Some (ts div time_bucket_granularity cfg))"

text \<open>Modelled from the spec: the buckets of the documents assigned to a Topic (4.6).\<close>

definition buckets_of :: "config \<Rightarrow> Document list \<Rightarrow> nat \<Rightarrow> nat list" where
  "buckets_of cfg docs tid =
     List.map_filter (bucket_of cfg) (filter (\<lambda>d. doc_topic_id d = Some tid) docs)"

text \<open>
  Modelled from the spec: the series of a Topic (3, 4.6): for each bucket "the number of
  documents in that topic published in that bucket", recomputed from the Document state,
  as an ordered sequence.
\<close>

definition series :: "config \<Rightarrow> Document list \<Rightarrow> nat \<Rightarrow> TemporalDataPoint list" where
  "series cfg docs tid =
     (let bs = buckets_of cfg docs tid
      in map (\<lambda>b. \<lparr>p_topic_id = tid, time_bucket = b, p_count = count_list bs b\<rparr>)
             (sort (remdups bs)))"

text \<open>
  Modelled from the spec: the Aggregating stage (4.6) with \<open>replace_series\<close> (section 6,
  "full replace per topic per run"): the series of every Topic that has a cluster in this
  run is replaced by the recomputed one; the points of the other Topics stay ("its
  historical TemporalDataPoints are retained untouched", 4.5).
\<close>

definition aggregate ::
  "config \<Rightarrow> Document list \<Rightarrow> nat list \<Rightarrow> TemporalDataPoint list \<Rightarrow> TemporalDataPoint list" where
  "aggregate cfg docs active old =
     filter (\<lambda>p. p_topic_id p \<notin> set active) old @ concat (map (series cfg docs) (remdups active))"

subsection \<open>PipelineOrchestrator: one retrain run\<close>

text \<open>
  Modelled from the spec: the state a run commits at Persisting, from the clustered
  documents (stages Labeling, Reconciling, Aggregating of 4.7). \<open>now\<close> is the time of the
  run, for \<open>created_at\<close>.
\<close>

definition pending ::
  "components \<Rightarrow> config \<Rightarrow> nat \<Rightarrow> stores \<Rightarrow> (Document \<times> assignment) list \<Rightarrow> stores" where
  "pending comps cfg now st rows =
     (let clusters = labeling_stage comps rows;
          rec = reconcile cfg now (topic_store st) clusters;
          docs = assign (snd rec) rows
      in \<lparr>document_store = docs,
          topic_store = recount docs (fst rec),
          temporal_store = aggregate cfg docs (map snd (snd rec)) (temporal_store st)\<rparr>)"

text \<open>
  Modelled from the spec: \<open>run_retrain\<close> (4.7, 6, 7): a run that fails answers the error and
  commits nothing; a run that succeeds answers the state it committed.
\<close>

definition run_retrain ::
  "components \<Rightarrow> config \<Rightarrow> nat \<Rightarrow> mode \<Rightarrow> stores \<Rightarrow> error + stores" where
  "run_retrain comps cfg now m st =
     (case clustered comps m (document_store st) of
        Inl e \<Rightarrow> Inl e
      | Inr rows \<Rightarrow>
          (let new = pending comps cfg now st rows
           in if persist_fails comps new then Inl PersistenceError else Inr new))"

subsection \<open>Observations on the persisted state\<close>

text \<open>
  Modelled from the spec: a Topic's "current document membership" (section 3): the
  documents whose \<open>topic_id\<close> references it (the query lives in the missing \<open>crud.py\<close>).
\<close>

definition members :: "stores \<Rightarrow> nat \<Rightarrow> Document list" where
  "members st tid = filter (\<lambda>d. doc_topic_id d = Some tid) (document_store st)"

subsection \<open>An example run\<close>

text \<open>
  Modelled from the spec: example components in the shape of sections 4.1 to 4.4 (the
  real ones are missing): an Embedder that fails on an empty text, a reducer that needs
  two documents, a Clusterer that puts the first two documents of the batch in cluster 7
  and labels the third noise, a fixed labeling, and a store that accepts the commit.
\<close>

definition example_components :: components where
  "example_components =
     \<lparr>embed = (\<lambda>texts. if [] \<in> set texts then Inl EmbeddingError else Inr (map (\<lambda>t. []) texts)),
      fit_transform = (\<lambda>vs. if length vs < 2 then Inl InsufficientDataError else Inr vs),
      cluster = (\<lambda>vs. Inr [(7, False), (7, False), (0, True)]),
      label = (\<lambda>ms corpus. (''upi'', [''upi'', ''rbi''])),
      persist_fails = (\<lambda>new. False)\<rparr>"

text \<open>
  Modelled from the spec: an example configuration (section 6): threshold one half, the
  mean of the two overlaps as the combination, daily buckets.
\<close>

definition example_config :: config where
  "example_config =
     \<lparr>similarity_threshold = 1 / 2, combine = (\<lambda>m k. (m + k) / 2), time_bucket_granularity = 86400\<rparr>"

text \<open>Modelled from the spec: an example Document (section 3), an article.\<close>

definition example_document ::
  "nat \<Rightarrow> string \<Rightarrow> nat option \<Rightarrow> vector option \<Rightarrow> nat option \<Rightarrow> Document" where
  "example_document i txt ts emb tp =
     \<lparr>doc_id = i, source_type = article, title = txt, full_content = txt, url = [],
      published_at = ts, embedding = emb, doc_topic_id = tp\<rparr>"

text \<open>
  Modelled from the spec: an example Topic (section 3) with one member, document 13.
\<close>

definition example_topic :: Topic where
  "example_topic =
     \<lparr>t_id = 4, t_name = ''ai'', t_keywords = [''ai''], created_at = 0, document_count = 1,
      representative_cluster_signature = [13]\<rparr>"

text \<open>
  Modelled from the spec: an example persisted state (section 6): two new documents not
  yet embedded, and document 13, embedded earlier, which is the one member of Topic 4 and
  is counted in its bucket 0.
\<close>

definition example_stores :: stores where
  "example_stores =
     \<lparr>document_store =
        [example_document 11 ''upi limits'' (Some 432000) None None,
         example_document 12 ''rbi on upi'' None None None,
         example_document 13 ''ai chips'' (Some 10) (Some []) (Some 4)],
      topic_store = [example_topic],
      temporal_store = [\<lparr>p_topic_id = 4, time_bucket = 0, p_count = 1\<rparr>]\<rparr>"

text \<open>
  Modelled from the spec: the state after the example run: the two new documents form the
  new Topic 5, document 13 is noise, and Topic 4 is dormant and keeps its series.
\<close>

definition example_result :: stores where
  "example_result =
     \<lparr>document_store =
        [example_document 11 ''upi limits'' (Some 432000) (Some []) (Some 5),
         example_document 12 ''rbi on upi'' None (Some []) (Some 5),
         example_document 13 ''ai chips'' (Some 10) (Some []) None],
      topic_store =
        [example_topic\<lparr>document_count := 0\<rparr>,
         \<lparr>t_id = 5, t_name = ''upi'', t_keywords = [''upi'', ''rbi''], created_at = 50,
          document_count = 2, representative_cluster_signature = [11, 12]\<rparr>],
      temporal_store =
        [\<lparr>p_topic_id = 4, time_bucket = 0, p_count = 1\<rparr>,
         \<lparr>p_topic_id = 5, time_bucket = 5, p_count = 1\<rparr>]\<rparr>"

section \<open>Properties of the front end\<close>

lemma length_js_lit: "length (js_lit s) = length s"
  by (simp add: js_lit_def)

lemma substring_0: "substring s 0 n = take n s"
  by (simp add: substring_def Let_def min_def)

declare exponent_shift.simps [simp del]

lemma exponent_shift_small: "m < 9007199254740992 \<Longrightarrow> exponent_shift m = 0"
  by (subst exponent_shift.simps) simp

lemma exponent_shift_2_53: "exponent_shift 9007199254740992 = Suc 0"
  by (subst exponent_shift.simps) (simp add: exponent_shift_small)

lemma round_to_double_small:
  assumes "\<bar>n\<bar> < 9007199254740992"
  shows "round_to_double n = Finite n"
proof (cases "n < 0")
  case True
  then have mag: "\<bar>n\<bar> = - n" by simp
  have shift: "exponent_shift (- n) = 0"
    using assms True by (intro exponent_shift_small) simp
  have "- n < (2 ^ 1024 :: int)"
    using assms True by simp
  with True show ?thesis
    unfolding round_to_double_def Let_def mag shift by simp
next
  case False
  then have mag: "\<bar>n\<bar> = n" by simp
  have shift: "exponent_shift n = 0"
    using assms False by (intro exponent_shift_small) simp
  have "n < (2 ^ 1024 :: int)"
    using assms False by simp
  with False show ?thesis
    unfolding round_to_double_def Let_def mag shift by simp
qed

lemma round_to_double_2_53:
  "round_to_double 9007199254740992 = Finite 9007199254740992"
  "round_to_double (- 9007199254740992) = Finite (- 9007199254740992)"
  by (simp_all add: round_to_double_def exponent_shift_2_53 Let_def)

lemma round_to_double_exact: "exact_range n \<Longrightarrow> round_to_double n = Finite n"
proof -
  assume "exact_range n"
  then consider "\<bar>n\<bar> < 9007199254740992" | "n = 9007199254740992" | "n = - 9007199254740992"
    unfolding exact_range_def by simp linarith
  then show ?thesis
    by cases (simp_all add: round_to_double_small round_to_double_2_53)
qed

lemma foldl_js_add:
  "\<forall>k \<le> length ts. exact_range (a + sum_list (map f (take k ts))) \<Longrightarrow>
     foldl (\<lambda>acc t. js_add acc (Finite (f t))) (Finite a) ts = Finite (a + sum_list (map f ts))"
proof (induction ts arbitrary: a)
  case Nil
  then show ?case by simp
next
  case (Cons t ts)
  from Cons.prems have "exact_range (a + sum_list (map f (take (Suc 0) (t # ts))))"
    by (metis Suc_leI length_Cons zero_less_Suc)
  then have step: "js_add (Finite a) (Finite (f t)) = Finite (a + f t)"
    by (simp add: round_to_double_exact)
  have "\<forall>k \<le> length ts. exact_range (a + f t + sum_list (map f (take k ts)))"
  proof (intro allI impI)
    fix k assume "k \<le> length ts"
    then have "Suc k \<le> length (t # ts)" by simp
    with Cons.prems have "exact_range (a + sum_list (map f (take (Suc k) (t # ts))))"
      by blast
    then show "exact_range (a + f t + sum_list (map f (take k ts)))"
      by (simp add: add.assoc)
  qed
  then have "foldl (\<lambda>acc t. js_add acc (Finite (f t))) (Finite (a + f t)) ts
      = Finite (a + f t + sum_list (map f ts))"
    by (rule Cons.IH)
  with step show ?case by (simp add: add.assoc)
qed

lemma round_to_double_2_53_plus_1: "round_to_double 9007199254740993 = Finite 9007199254740992"
proof -
  have "exponent_shift 9007199254740993 = Suc 0"
    by (subst exponent_shift.simps) (simp add: exponent_shift_small)
  then show ?thesis
    by (simp add: round_to_double_def Let_def)
qed

lemma strict_equals_Num: "strict_equals (Num a) x = (x = Num a)"
  by (cases x) auto

lemma currentTopic_Some:
  "currentTopic st = Some t \<Longrightarrow>
     t \<in> set (topics st) \<and> parseInt (selectedTopic st) = Num (topic_id t)"
  by (auto simp: currentTopic_def find_Some_iff strict_equals_Num)

lemma currentTopic_None:
  "(currentTopic st = None) = (\<not> (\<exists>t \<in> set (topics st). Num (topic_id t) = parseInt (selectedTopic st)))"
  by (auto simp: currentTopic_def find_None_iff strict_equals_Num)

lemma topic_header_Some:
  "topic_header (Some t) = Inr \<lparr>heading = topic_name t, tags = split (topic_keywords t) (js_lit '', '')\<rparr>"
  by (simp add: topic_header_def)

lemma render_header_cases:
  "render_header st =
     (if selectedTopic st \<noteq> [] \<and> \<not> loading st
      then (case currentTopic st of
              None \<Rightarrow> Inr None
            | Some t \<Rightarrow> Inr (Some \<lparr>heading = topic_name t, tags = split (topic_keywords t) (js_lit '', '')\<rparr>))
      else Inr None)"
  by (simp add: render_header_def topic_header_Some split: option.splits)

lemma is_digit_0: "is_digit 10 0x30"
  by (simp add: is_digit_def digit_value_def)

lemma parseInt_no_digit:
  assumes "case strip_sign (trim_start s) of [] \<Rightarrow> True | c # cs \<Rightarrow> \<not> is_digit 10 c"
  shows "parseInt s = NaN"
proof (cases "strip_sign (trim_start s)")
  case Nil
  then show ?thesis by (simp add: parseInt_def Let_def)
next
  case (Cons c cs)
  with assms have nd: "\<not> is_digit 10 c" by simp
  have "c \<noteq> 0x30" using nd is_digit_0 by auto
  then have nohex: "\<not> (take 2 (c # cs) = js_lit ''0x'' \<or> take 2 (c # cs) = js_lit ''0X'')"
    by (cases cs) (auto simp: js_lit_def)
  show ?thesis using Cons nd nohex
    by (simp add: parseInt_def Let_def)
qed

text \<open>
  Claim C8. \<open>getSnippet\<close> answers \<open>'No content available.'\<close> for \<open>undefined\<close>, \<open>null\<close> and
  the empty string; it answers a non-empty text of at most 300 code units unchanged; for
  a longer text it answers the first 300 code units followed by \<open>'...'\<close>. Whatever the
  input, the snippet is a string of at most 303 code units.
\<close>

theorem getSnippet_spec:
  "getSnippet JUndefined = JString (js_lit ''No content available.'')
   \<and> getSnippet JNull = JString (js_lit ''No content available.'')
   \<and> getSnippet (JString []) = JString (js_lit ''No content available.'')
   \<and> (s \<noteq> [] \<and> length s \<le> 300 \<longrightarrow> getSnippet (JString s) = JString s)
   \<and> (300 < length s \<longrightarrow> getSnippet (JString s) = JString (take 300 s @ js_lit ''...''))
   \<and> (\<exists>r. getSnippet v = JString r \<and> length r \<le> 303)"
proof -
  have bound: "\<exists>r. getSnippet v = JString r \<and> length r \<le> 303"
  proof (cases v)
    case (JString t)
    then show ?thesis
      by (auto simp: getSnippet_def substring_0 length_js_lit)
  qed (simp_all add: getSnippet_def length_js_lit)
  have short: "s \<noteq> [] \<and> length s \<le> 300 \<longrightarrow> getSnippet (JString s) = JString s"
    by (simp add: getSnippet_def)
  have long: "300 < length s \<longrightarrow> getSnippet (JString s) = JString (take 300 s @ js_lit ''...'')"
    by (auto simp: getSnippet_def substring_0)
  show ?thesis using bound short long by (simp add: getSnippet_def)
qed

theorem getSnippet_spec_witness:
  "getSnippet (JString (js_lit ''Budget 2025'')) = JString (js_lit ''Budget 2025'')
   \<and> getSnippet (JString (replicate 301 0x41)) = JString (replicate 300 0x41 @ js_lit ''...'')
   \<and> (\<exists>r. getSnippet (JString (replicate 301 0x41)) = JString r \<and> length r \<le> 303)"
  using getSnippet_spec [of "js_lit ''Budget 2025''" JNull]
    getSnippet_spec [of "replicate 301 0x41" "JString (replicate 301 0x41)"]
  by (simp add: js_lit_def)

text \<open>
  Claim C9, as amended. For a response that is an array whose counts and whose running
  totals, taken from the left, are all integers of magnitude at most \<open>2^53\<close>, "Total
  Documents Analyzed" is the sum of the \<open>count\<close> fields of its topics; for any array
  "Discovered Topics" is its length; for a response that is not an array both statistics
  are 0.
\<close>

theorem dashboard_statistics:
  "((\<forall>t \<in> set ts. exact_range (topic_count t))
      \<and> (\<forall>k \<le> length ts. exact_range (sum_list (map topic_count (take k ts))))
      \<longrightarrow> totalDocuments (TopicsArray ts) = Finite (sum_list (map topic_count ts)))
   \<and> totalDocuments NotAnArray = Finite 0
   \<and> uniqueTopics (TopicsArray ts) = length ts
   \<and> uniqueTopics NotAnArray = 0"
proof -
  have total: "totalDocuments (TopicsArray ts) = Finite (sum_list (map topic_count ts))"
    if "\<forall>k \<le> length ts. exact_range (sum_list (map topic_count (take k ts)))"
  proof -
    from that have "\<forall>k \<le> length ts. exact_range (0 + sum_list (map topic_count (take k ts)))"
      by simp
    then have "foldl (\<lambda>acc topic. js_add acc (Finite (topic_count topic))) (Finite 0) ts
        = Finite (0 + sum_list (map topic_count ts))"
      by (rule foldl_js_add)
    then show ?thesis by (simp add: totalDocuments_def)
  qed
  have other: "totalDocuments NotAnArray = Finite 0"
    by (simp add: totalDocuments_def)
  have unique: "uniqueTopics (TopicsArray ts) = length ts \<and> uniqueTopics NotAnArray = 0"
    by (simp add: uniqueTopics_def)
  from total other unique show ?thesis by blast
qed

theorem dashboard_statistics_witness:
  "exact_range 3 \<and> exact_range 4 \<and> exact_range 7
   \<and> totalDocuments (TopicsArray
      [\<lparr>topic_id = 1, topic_name = js_lit ''UPI'', topic_keywords = js_lit ''upi, rbi'', topic_count = 3\<rparr>,
       \<lparr>topic_id = 2, topic_name = js_lit ''AI'', topic_keywords = js_lit ''ai'', topic_count = 4\<rparr>])
       = Finite 7
   \<and> uniqueTopics (TopicsArray
      [\<lparr>topic_id = 1, topic_name = js_lit ''UPI'', topic_keywords = js_lit ''upi, rbi'', topic_count = 3\<rparr>,
       \<lparr>topic_id = 2, topic_name = js_lit ''AI'', topic_keywords = js_lit ''ai'', topic_count = 4\<rparr>]) = 2"
proof -
  let ?ts = "[\<lparr>topic_id = 1, topic_name = js_lit ''UPI'', topic_keywords = js_lit ''upi, rbi'', topic_count = 3\<rparr>,
       \<lparr>topic_id = 2, topic_name = js_lit ''AI'', topic_keywords = js_lit ''ai'', topic_count = 4\<rparr>]"
  have range: "exact_range 0 \<and> exact_range 3 \<and> exact_range 4 \<and> exact_range 7"
    by (simp add: exact_range_def)
  then have counts: "\<forall>t \<in> set ?ts. exact_range (topic_count t)"
    by simp
  have totals: "\<forall>k \<le> length ?ts. exact_range (sum_list (map topic_count (take k ?ts)))"
  proof (intro allI impI)
    fix k assume "k \<le> length ?ts"
    then consider "k = 0" | "k = 1" | "k = 2" by fastforce
    then show "exact_range (sum_list (map topic_count (take k ?ts)))"
      using range by cases simp_all
  qed
  from dashboard_statistics [of ?ts] counts totals
  have "totalDocuments (TopicsArray ?ts) = Finite (sum_list (map topic_count ?ts))
      \<and> uniqueTopics (TopicsArray ?ts) = length ?ts"
    by blast
  with range show ?thesis by simp
qed

text \<open>
  Claim C9 as stated fails beyond that range: for the counts \<open>2^53\<close> and 1, both of them
  doubles, the statistic is \<open>2^53\<close> while the sum of the \<open>count\<close> fields is \<open>2^53 + 1\<close>.
\<close>

theorem dashboard_statistics_counterexample:
  "exact_range 9007199254740992 \<and> exact_range 1
   \<and> totalDocuments (TopicsArray
        [\<lparr>topic_id = 1, topic_name = js_lit ''UPI'', topic_keywords = js_lit ''upi'',
          topic_count = 9007199254740992\<rparr>,
         \<lparr>topic_id = 2, topic_name = js_lit ''AI'', topic_keywords = js_lit ''ai'', topic_count = 1\<rparr>])
       = Finite 9007199254740992
   \<and> sum_list (map topic_count
        [\<lparr>topic_id = 1, topic_name = js_lit ''UPI'', topic_keywords = js_lit ''upi'',
          topic_count = 9007199254740992\<rparr>,
         \<lparr>topic_id = 2, topic_name = js_lit ''AI'', topic_keywords = js_lit ''ai'', topic_count = 1\<rparr>])
       = 9007199254740993"
  by (simp add: exact_range_def totalDocuments_def round_to_double_2_53 round_to_double_2_53_plus_1)

text \<open>
  Claim C10. For every route parameter (\<open>selectedTopic\<close>) the header is rendered only for a
  fetched topic whose \<open>id\<close> equals \<open>parseInt(selectedTopic)\<close>, and then it shows that topic's
  name and the pieces of its keywords split on \<open>', '\<close>. When no fetched topic has that id
  \<open>currentTopic\<close> is \<open>undefined\<close> and no header is rendered; this covers a parameter with no
  leading digit, for which \<open>parseInt\<close> is \<open>NaN\<close>. Rendering never throws the \<open>TypeError\<close> of
  reading \<open>keywords\<close> from an undefined topic.
\<close>

theorem topic_header_guarded:
  "(render_header st = Inr (Some h) \<longrightarrow>
      (\<exists>t \<in> set (topics st). Num (topic_id t) = parseInt (selectedTopic st)
         \<and> currentTopic st = Some t
         \<and> h = \<lparr>heading = topic_name t, tags = split (topic_keywords t) (js_lit '', '')\<rparr>))
   \<and> ((\<not> (\<exists>t \<in> set (topics st). Num (topic_id t) = parseInt (selectedTopic st))) \<longrightarrow>
        currentTopic st = None \<and> render_header st = Inr None)
   \<and> ((case strip_sign (trim_start (selectedTopic st)) of [] \<Rightarrow> True | c # cs \<Rightarrow> \<not> is_digit 10 c) \<longrightarrow>
        parseInt (selectedTopic st) = NaN \<and> currentTopic st = None \<and> render_header st = Inr None)
   \<and> (parseInt (selectedTopic st) = NaN \<longrightarrow>
        currentTopic st = None \<and> render_header st = Inr None)
   \<and> render_header st \<noteq> Inl TypeError"
proof -
  have shown: "render_header st = Inr (Some h) \<longrightarrow>
      (\<exists>t \<in> set (topics st). Num (topic_id t) = parseInt (selectedTopic st)
         \<and> currentTopic st = Some t
         \<and> h = \<lparr>heading = topic_name t, tags = split (topic_keywords t) (js_lit '', '')\<rparr>)"
    by (auto simp: render_header_cases split: if_splits option.splits dest: currentTopic_Some)
  have absent: "(\<not> (\<exists>t \<in> set (topics st). Num (topic_id t) = parseInt (selectedTopic st))) \<longrightarrow>
        currentTopic st = None \<and> render_header st = Inr None"
    using currentTopic_None [of st] by (auto simp: render_header_cases)
  have nan: "parseInt (selectedTopic st) = NaN \<longrightarrow> currentTopic st = None \<and> render_header st = Inr None"
    using currentTopic_None [of st] by (auto simp: render_header_cases)
  have non_numeric: "(case strip_sign (trim_start (selectedTopic st)) of [] \<Rightarrow> True | c # cs \<Rightarrow> \<not> is_digit 10 c) \<longrightarrow>
        parseInt (selectedTopic st) = NaN \<and> currentTopic st = None \<and> render_header st = Inr None"
    using nan parseInt_no_digit [of "selectedTopic st"] by blast
  have no_error: "render_header st \<noteq> Inl TypeError"
    by (simp add: render_header_cases split: option.splits)
  show ?thesis using shown absent non_numeric nan no_error by blast
qed

theorem topic_header_guarded_witness:
  "(\<exists>t \<in> set [\<lparr>topic_id = 7, topic_name = js_lit ''AI'', topic_keywords = js_lit ''ai, ml'', topic_count = 3\<rparr>].
      Num (topic_id t) = parseInt (js_lit ''7'')
      \<and> \<lparr>heading = js_lit ''AI'', tags = [js_lit ''ai'', js_lit ''ml'']\<rparr>
          = \<lparr>heading = topic_name t, tags = split (topic_keywords t) (js_lit '', '')\<rparr>)
   \<and> parseInt (js_lit ''latest'') = NaN
   \<and> currentTopic \<lparr>topics = [\<lparr>topic_id = 7, topic_name = js_lit ''AI'', topic_keywords = js_lit ''ai, ml'', topic_count = 3\<rparr>],
        selectedTopic = js_lit ''latest'', loading = False\<rparr> = None
   \<and> render_header \<lparr>topics = [\<lparr>topic_id = 7, topic_name = js_lit ''AI'', topic_keywords = js_lit ''ai, ml'', topic_count = 3\<rparr>],
        selectedTopic = js_lit ''latest'', loading = False\<rparr> = Inr None"
proof -
  let ?row = "\<lparr>topic_id = 7, topic_name = js_lit ''AI'', topic_keywords = js_lit ''ai, ml'', topic_count = 3\<rparr>"
  let ?shown = "\<lparr>topics = [?row], selectedTopic = js_lit ''7'', loading = False\<rparr>"
  let ?skipped = "\<lparr>topics = [?row], selectedTopic = js_lit ''latest'', loading = False\<rparr>"
  let ?h = "\<lparr>heading = js_lit ''AI'', tags = [js_lit ''ai'', js_lit ''ml'']\<rparr>"
  have rendered: "render_header ?shown = Inr (Some ?h)"
    by code_simp
  have non_numeric:
    "case strip_sign (trim_start (selectedTopic ?skipped)) of [] \<Rightarrow> True | c # cs \<Rightarrow> \<not> is_digit 10 c"
    by code_simp
  from topic_header_guarded [of ?shown ?h] rendered
  have a: "\<exists>t \<in> set (topics ?shown). Num (topic_id t) = parseInt (selectedTopic ?shown)
         \<and> currentTopic ?shown = Some t
         \<and> ?h = \<lparr>heading = topic_name t, tags = split (topic_keywords t) (js_lit '', '')\<rparr>"
    by blast
  from topic_header_guarded [of ?skipped ?h] non_numeric
  have b: "parseInt (selectedTopic ?skipped) = NaN \<and> currentTopic ?skipped = None
         \<and> render_header ?skipped = Inr None"
    by blast
  from a b show ?thesis by simp
qed

section \<open>Properties of the topic engine\<close>

subsection \<open>Clusters and their members\<close>

lemma cluster_labels_iff:
  "l \<in> set (cluster_labels rows) = (\<exists>d. (d, Cluster l) \<in> set rows)"
  by (auto simp: cluster_labels_def List.map_filter_def split: assignment.splits)
     force

lemma labels_of_labeling_stage:
  "c_label ` set (labeling_stage comps rows) = set (cluster_labels rows)"
  by (auto simp: labeling_stage_def Let_def image_iff)

subsection \<open>Matching\<close>

lemma greedy_subset:
  "(l, tid) \<in> set (greedy cands acc) \<Longrightarrow>
     (l, tid) \<in> set acc \<or> (\<exists>s ov. (s, ov, tid, l) \<in> set cands)"
proof (induction cands acc rule: greedy.induct)
  case (1 acc)
  then show ?case by simp
next
  case (2 s ov tid' l' cands acc)
  then show ?case by (auto split: if_splits)
qed

lemma greedy_distinct_labels:
  "distinct (map fst acc) \<Longrightarrow> distinct (map fst (greedy cands acc))"
proof (induction cands acc rule: greedy.induct)
  case (1 acc)
  then show ?case by simp
next
  case (2 s ov tid l cands acc)
  then show ?case by (auto simp: image_iff)
qed

lemma candidates_from:
  "(s, ov, tid, l) \<in> set (candidates cfg clusters existing) \<Longrightarrow>
     l \<in> c_label ` set clusters \<and> tid \<in> t_id ` set existing"
  by (auto simp: candidates_def)

lemma matches_from:
  assumes "(l, tid) \<in> set (matches cfg clusters existing)"
  shows "l \<in> c_label ` set clusters \<and> tid \<in> t_id ` set existing"
proof -
  from assms greedy_subset [of l tid "sort_key rank (candidates cfg clusters existing)" "[]"]
  obtain s ov where "(s, ov, tid, l) \<in> set (candidates cfg clusters existing)"
    by (auto simp: matches_def)
  then show ?thesis by (rule candidates_from)
qed

lemma matches_distinct_labels: "distinct (map fst (matches cfg clusters existing))"
  by (simp add: matches_def greedy_distinct_labels)

subsection \<open>Series\<close>

lemma series_topic: "p \<in> set (series cfg docs tid) \<Longrightarrow> p_topic_id p = tid"
  by (auto simp: series_def Let_def)

lemma filter_series:
  "filter (\<lambda>p. p_topic_id p = tid) (series cfg docs tid') =
     (if tid' = tid then series cfg docs tid' else [])"
  by (auto simp: filter_empty_conv dest: series_topic intro: filter_True)

lemma filter_concat_series_other:
  "tid \<notin> set ids \<Longrightarrow> filter (\<lambda>p. p_topic_id p = tid) (concat (map (series cfg docs) ids)) = []"
  by (induction ids) (auto simp: filter_series)

lemma aggregate_inactive:
  "tid \<notin> set active \<Longrightarrow>
     filter (\<lambda>p. p_topic_id p = tid) (aggregate cfg docs active old) =
     filter (\<lambda>p. p_topic_id p = tid) old"
  by (auto simp: aggregate_def filter_concat_series_other intro: filter_cong)

subsection \<open>The resolution of cluster labels\<close>

lemma distinct_labels_of_labeling_stage: "distinct (map c_label (labeling_stage comps rows))"
  by (simp add: labeling_stage_def Let_def comp_def cluster_labels_def)

lemma resolution_labels:
  assumes "(l, tid) \<in> set (snd (reconcile cfg now existing clusters))"
  shows "l \<in> c_label ` set clusters"
proof -
  let ?ms = "matches cfg clusters existing"
  let ?un = "filter (\<lambda>c. c_label c \<notin> fst ` set ?ms) clusters"
  let ?ids = "[fresh_id existing ..< fresh_id existing + length ?un]"
  from assms consider
    (matched) "(l, tid) \<in> set ?ms"
    | (created) "(l, tid) \<in> set (zip (map c_label ?un) ?ids)"
    by (auto simp: reconcile_def Let_def)
  then show ?thesis
  proof cases
    case matched
    then show ?thesis using matches_from by blast
  next
    case created
    then have "l \<in> set (map c_label ?un)" by (rule set_zip_leftD)
    then show ?thesis by auto
  qed
qed

lemma resolution_distinct:
  assumes "distinct (map c_label clusters)"
  shows "distinct (map fst (snd (reconcile cfg now existing clusters)))"
proof -
  let ?ms = "matches cfg clusters existing"
  let ?un = "filter (\<lambda>c. c_label c \<notin> fst ` set ?ms) clusters"
  let ?ids = "[fresh_id existing ..< fresh_id existing + length ?un]"
  have new: "map fst (zip (map c_label ?un) ?ids) = map c_label ?un"
    by simp
  have "distinct (map c_label ?un)"
    using assms by (simp add: distinct_map_filter)
  moreover have "set (map fst ?ms) \<inter> set (map c_label ?un) = {}"
    by (auto simp: image_iff)
  ultimately have "distinct (map fst ?ms @ map c_label ?un)"
    using matches_distinct_labels [of cfg clusters existing] by simp
  then show ?thesis
    unfolding reconcile_def Let_def snd_conv map_append new .
qed

lemma resolved_has_member:
  assumes "(l, tid) \<in> set (snd (reconcile cfg now existing (labeling_stage comps rows)))"
  shows "\<exists>d' \<in> set (assign (snd (reconcile cfg now existing (labeling_stage comps rows))) rows).
           doc_topic_id d' = Some tid"
proof -
  let ?res = "snd (reconcile cfg now existing (labeling_stage comps rows))"
  have "distinct (map fst ?res)"
    by (rule resolution_distinct) (rule distinct_labels_of_labeling_stage)
  with assms have look: "map_of ?res l = Some tid" by simp
  from assms have "l \<in> set (cluster_labels rows)"
    using resolution_labels labels_of_labeling_stage by blast
  then obtain d where "(d, Cluster l) \<in> set rows"
    by (auto simp: cluster_labels_iff)
  then have "d\<lparr>doc_topic_id := map_of ?res l\<rparr> \<in> set (assign ?res rows)"
    by (force simp: assign_def)
  with look show ?thesis by force
qed

lemma matches_in_resolution:
  "set (matches cfg clusters existing) \<subseteq> set (snd (reconcile cfg now existing clusters))"
  by (auto simp: reconcile_def Let_def)

lemma refresh_unmatched:
  "t_id t \<notin> snd ` set ms \<Longrightarrow> refresh ms clusters t = t"
proof -
  assume "t_id t \<notin> snd ` set ms"
  then have "find (\<lambda>(l, tid). tid = t_id t) ms = None"
    by (force simp: find_None_iff)
  then show ?thesis by (simp add: refresh_def)
qed

subsection \<open>What a successful run commits\<close>

lemma run_retrain_Inr:
  assumes "run_retrain comps cfg now m st = Inr st'"
  obtains rows where "clustered comps m (document_store st) = Inr rows"
    and "st' = pending comps cfg now st rows"
  using assms by (auto simp: run_retrain_def Let_def split: sum.splits if_splits)

lemma pending_documents:
  "document_store (pending comps cfg now st rows) =
     assign (snd (reconcile cfg now (topic_store st) (labeling_stage comps rows))) rows"
  by (simp add: pending_def Let_def)

lemma pending_topics:
  "topic_store (pending comps cfg now st rows) =
     recount (document_store (pending comps cfg now st rows))
       (fst (reconcile cfg now (topic_store st) (labeling_stage comps rows)))"
  by (simp add: pending_def Let_def)

lemma pending_temporal:
  "temporal_store (pending comps cfg now st rows) =
     aggregate cfg (document_store (pending comps cfg now st rows))
       (map snd (snd (reconcile cfg now (topic_store st) (labeling_stage comps rows))))
       (temporal_store st)"
  by (simp add: pending_def Let_def)

lemma active_has_member:
  assumes "tid \<in> snd ` set (snd (reconcile cfg now (topic_store st) (labeling_stage comps rows)))"
  shows "\<exists>d \<in> set (document_store (pending comps cfg now st rows)). doc_topic_id d = Some tid"
  using assms resolved_has_member [of _ tid cfg now "topic_store st" comps rows]
  by (auto simp: pending_documents)

text \<open>
  Claim C5. If a successful retrain leaves an existing Topic with no member document,
  the Topic is still in the Topic store, unchanged but for \<open>document_count = 0\<close>, and its
  persisted TemporalDataPoints are exactly those it had before the run.
\<close>

theorem dormancy_not_deletion:
  assumes "run_retrain comps cfg now m st = Inr st'"
    and "t \<in> set (topic_store st)"
    and "members st' (t_id t) = []"
  shows "t\<lparr>document_count := 0\<rparr> \<in> set (topic_store st')
       \<and> filter (\<lambda>p. p_topic_id p = t_id t) (temporal_store st')
         = filter (\<lambda>p. p_topic_id p = t_id t) (temporal_store st)"
proof -
  from assms(1) obtain rows where st': "st' = pending comps cfg now st rows"
    by (rule run_retrain_Inr)
  let ?clusters = "labeling_stage comps rows"
  let ?rec = "reconcile cfg now (topic_store st) ?clusters"
  let ?ms = "matches cfg ?clusters (topic_store st)"
  have inactive: "t_id t \<notin> snd ` set (snd ?rec)"
    using active_has_member [of "t_id t" cfg now st comps rows] assms(3)
    by (auto simp: st' members_def filter_empty_conv)
  then have "t_id t \<notin> snd ` set ?ms"
    using matches_in_resolution [of cfg ?clusters "topic_store st" now] by auto
  then have "refresh ?ms ?clusters t = t" by (rule refresh_unmatched)
  with assms(2) have "t \<in> set (fst ?rec)"
    by (force simp: reconcile_def Let_def)
  then have "t\<lparr>document_count := length (members st' (t_id t))\<rparr> \<in> set (topic_store st')"
    by (force simp: st' pending_topics recount_def members_def)
  then have kept: "t\<lparr>document_count := 0\<rparr> \<in> set (topic_store st')"
    by (simp add: assms(3))
  from inactive have "t_id t \<notin> set (map snd (snd ?rec))" by simp
  then have "filter (\<lambda>p. p_topic_id p = t_id t) (temporal_store st')
         = filter (\<lambda>p. p_topic_id p = t_id t) (temporal_store st)"
    unfolding st' pending_temporal by (rule aggregate_inactive)
  with kept show ?thesis by simp
qed

subsection \<open>The example run, stage by stage\<close>

lemma example_clustered:
  "clustered example_components incremental (document_store example_stores) =
     Inr [(example_document 11 ''upi limits'' (Some 432000) (Some []) None, Cluster 7),
          (example_document 12 ''rbi on upi'' None (Some []) None, Cluster 7),
          (example_document 13 ''ai chips'' (Some 10) (Some []) (Some 4), Noise)]"
  by (simp add: clustered_def embedding_stage_def embed_document_def example_components_def
      example_stores_def example_document_def batch_vectors_def List.map_filter_def
      clustering_stage_def)

lemma example_labeling:
  "labeling_stage example_components
     [(example_document 11 ''upi limits'' (Some 432000) (Some []) None, Cluster 7),
      (example_document 12 ''rbi on upi'' None (Some []) None, Cluster 7),
      (example_document 13 ''ai chips'' (Some 10) (Some []) (Some 4), Noise)]
   = [\<lparr>c_label = 7, c_members = [11, 12], c_name = ''upi'', c_keywords = [''upi'', ''rbi'']\<rparr>]"
  by (simp add: labeling_stage_def cluster_labels_def members_of_def List.map_filter_def
      example_components_def example_document_def)

lemma example_matches:
  "matches example_config
     [\<lparr>c_label = 7, c_members = [11, 12], c_name = ''upi'', c_keywords = [''upi'', ''rbi'']\<rparr>]
     [example_topic] = []"
  by (simp add: matches_def candidates_def similarity_def jaccard_def overlap_count_def
      example_config_def example_topic_def)

lemma example_reconcile:
  "reconcile example_config 50 [example_topic]
     [\<lparr>c_label = 7, c_members = [11, 12], c_name = ''upi'', c_keywords = [''upi'', ''rbi'']\<rparr>]
   = ([example_topic,
       \<lparr>t_id = 5, t_name = ''upi'', t_keywords = [''upi'', ''rbi''], created_at = 50,
        document_count = 2, representative_cluster_signature = [11, 12]\<rparr>],
      [(7, 5)])"
  by (simp add: reconcile_def Let_def example_matches refresh_def fresh_id_def create_def)
     (simp add: example_topic_def)

lemma example_run:
  "run_retrain example_components example_config 50 incremental example_stores = Inr example_result"
proof -
  have "pending example_components example_config 50 example_stores
     [(example_document 11 ''upi limits'' (Some 432000) (Some []) None, Cluster 7),
      (example_document 12 ''rbi on upi'' None (Some []) None, Cluster 7),
      (example_document 13 ''ai chips'' (Some 10) (Some []) (Some 4), Noise)]
    = example_result"
    unfolding pending_def example_labeling
    by (simp add: Let_def example_stores_def example_reconcile assign_def)
       (simp add: recount_def aggregate_def series_def buckets_of_def bucket_of_def
         List.map_filter_def example_result_def example_document_def example_topic_def
         example_config_def)
  then show ?thesis
    by (simp add: run_retrain_def example_clustered) (simp add: example_components_def)
qed

theorem dormancy_not_deletion_witness:
  "run_retrain example_components example_config 50 incremental example_stores = Inr example_result
   \<and> example_topic \<in> set (topic_store example_stores)
   \<and> members example_result (t_id example_topic) = []
   \<and> example_topic\<lparr>document_count := 0\<rparr> \<in> set (topic_store example_result)
   \<and> filter (\<lambda>p. p_topic_id p = t_id example_topic) (temporal_store example_result)
       = [\<lparr>p_topic_id = 4, time_bucket = 0, p_count = 1\<rparr>]"
proof -
  have mem: "example_topic \<in> set (topic_store example_stores)"
    by (simp add: example_stores_def)
  have none: "members example_result (t_id example_topic) = []"
    by (simp add: members_def example_result_def example_document_def example_topic_def)
  have old: "filter (\<lambda>p. p_topic_id p = t_id example_topic) (temporal_store example_stores)
       = [\<lparr>p_topic_id = 4, time_bucket = 0, p_count = 1\<rparr>]"
    by (simp add: example_stores_def example_topic_def)
  from dormancy_not_deletion [OF example_run mem none] old
  have "example_topic\<lparr>document_count := 0\<rparr> \<in> set (topic_store example_result)
      \<and> filter (\<lambda>p. p_topic_id p = t_id example_topic) (temporal_store example_result)
          = [\<lparr>p_topic_id = 4, time_bucket = 0, p_count = 1\<rparr>]"
    by simp
  with example_run mem none show ?thesis by simp
qed

end
